theory Spec2Isabelle
  imports Main "HOL-Library.AList"
begin

section \<open>Values of the JavaScript program\<close>

text \<open>
  The server of \<^verbatim>\<open>examples/express-AppPlatform-mcp-server-streamable/src/index.ts\<close>
  handles JSON values: request bodies parsed by \<^verbatim>\<open>express.json()\<close> and the objects
  given to \<^verbatim>\<open>res.json\<close>. An object is the list of its own properties in insertion
  order. Numbers are integers, which covers every JSON-RPC correlation id; fractional
  numbers are not used by the code modelled here.
\<close>

datatype json =
    JNull
  | JBool bool
  | JNum int
  | JStr string
  | JArr "json list"
  | JObj "(string \<times> json) list"

text \<open>
  A JavaScript expression may also evaluate to \<^verbatim>\<open>undefined\<close>: a \<open>json option\<close> with
  \<open>None\<close> for \<^verbatim>\<open>undefined\<close>.
\<close>

type_synonym jsval = "json option"

text \<open>\<^verbatim>\<open>ToBoolean\<close>: the values that count as false in a condition, under \<^verbatim>\<open>!\<close> and
  on the left of \<^verbatim>\<open>||\<close>.\<close>

fun truthy :: "jsval \<Rightarrow> bool" where
  "truthy None = False"
| "truthy (Some JNull) = False"
| "truthy (Some (JBool b)) = b"
| "truthy (Some (JNum n)) = (n \<noteq> 0)"
| "truthy (Some (JStr s)) = (s \<noteq> [])"
| "truthy (Some (JArr xs)) = True"
| "truthy (Some (JObj kvs)) = True"

text \<open>\<^verbatim>\<open>a || b\<close> with a right operand that is a JSON value.\<close>

definition js_or :: "jsval \<Rightarrow> json \<Rightarrow> json" where
  "js_or a b = (case a of None \<Rightarrow> b | Some v \<Rightarrow> if truthy (Some v) then v else b)"

text \<open>\<^verbatim>\<open>v?.name\<close>: \<^verbatim>\<open>undefined\<close> when \<open>v\<close> is \<^verbatim>\<open>undefined\<close> or \<^verbatim>\<open>null\<close>, the own
  property of an object, and \<^verbatim>\<open>undefined\<close> for a name that an array, a string, a number
  or a boolean does not have (the source only reads \<^verbatim>\<open>id\<close>).\<close>

fun opt_prop :: "jsval \<Rightarrow> string \<Rightarrow> jsval" where
  "opt_prop (Some (JObj kvs)) name = map_of kvs name"
| "opt_prop _ name = None"

section \<open>Environment and startup\<close>

text \<open>\<^verbatim>\<open>process.env\<close> after \<^verbatim>\<open>dotenv.config()\<close>: every value is a string; a variable that
  is not set reads as \<^verbatim>\<open>undefined\<close>.\<close>

type_synonym env = "string \<rightharpoonup> string"

definition env_val :: "env \<Rightarrow> string \<Rightarrow> jsval" where
  "env_val e name = map_option JStr (e name)"



text \<open>What the process has done: the console lines, the exit status once
  \<^verbatim>\<open>process.exit\<close> was called, and the port once \<^verbatim>\<open>app.listen\<close> was called.\<close>

text \<open>What the code can throw or catch: Node's error for a header written after the
  headers were sent, the \<^verbatim>\<open>Error\<close> of \<^verbatim>\<open>makeNWSRequest\<close> carrying an HTTP status, and any
  other failure of a library call.\<close>

datatype exn =
    ERR_HTTP_HEADERS_SENT
  | HttpStatusError nat
  | Failure string

datatype log_arg =
    Str string
  | Err exn
  | Names "string list"
  | Val jsval
  | Hdrs "(string \<times> string) list"

datatype port = PortNum nat | PortStr string

record process =
  stdout :: "log_arg list list"
  stderr :: "log_arg list list"
  exitCode :: "nat option"
  listening :: "port option"

definition process0 :: process where
  "process0 = \<lparr>stdout = [], stderr = [], exitCode = None, listening = None\<rparr>"

definition console_log :: "log_arg list \<Rightarrow> process \<Rightarrow> process" where
  "console_log args p = p\<lparr>stdout := stdout p @ [args]\<rparr>"

definition console_error :: "log_arg list \<Rightarrow> process \<Rightarrow> process" where
  "console_error args p = p\<lparr>stderr := stderr p @ [args]\<rparr>"






section \<open>Requests, responses and the Express operations used\<close>

datatype http_method = GET | HEAD | POST | PUT | DELETE | OPTIONS | PATCH

text \<open>The validated identity that the bearer middleware attaches as \<^verbatim>\<open>req.auth\<close>.\<close>

record principal =
  subject :: string
  scopes :: "string list"
  expiry :: nat

text \<open>
  A request: the path is the list of its segments (\<open>[]\<close> for \<^verbatim>\<open>/\<close>, \<open>[''mcp'']\<close> for
  \<^verbatim>\<open>/mcp\<close>), the header names are in lower case as Node delivers them, and \<open>body\<close> is
  \<^verbatim>\<open>req.body\<close>.
\<close>

record request =
  reqMethod :: http_method
  reqPath :: "string list"
  reqHeaders :: "(string \<times> string) list"
  body :: jsval
  auth :: "principal option"

text \<open>What a response carries: a terminal write is one call that ends the response with
  a payload (\<^verbatim>\<open>res.json\<close>, \<^verbatim>\<open>res.send\<close>, \<^verbatim>\<open>res.end\<close>), recorded in \<open>sent\<close>.\<close>

datatype payload =
    Json json
  | Raw string
  | NotFoundPage
  | ErrorPage exn

record response =
  statusCode :: nat
  headers :: "(string \<times> string) list"
  headersSent :: bool
  sent :: "payload list"

definition response0 :: response where
  "response0 = \<lparr>statusCode = 200, headers = [], headersSent = False, sent = []\<rparr>"

definition res_status :: "nat \<Rightarrow> response \<Rightarrow> response" where
  "res_status code r = r\<lparr>statusCode := code\<rparr>"

text \<open>\<^verbatim>\<open>res.setHeader\<close> throws once the headers are on the wire.\<close>

definition res_setHeader :: "string \<Rightarrow> string \<Rightarrow> response \<Rightarrow> exn + response" where
  "res_setHeader name v r =
     (if headersSent r then Inl ERR_HTTP_HEADERS_SENT
      else Inr (r\<lparr>headers := AList.update name v (headers r)\<rparr>))"

text \<open>\<^verbatim>\<open>res.json(v)\<close>: sets the content type unless one is set, which throws after the
  headers were sent; then writes the headers and the serialised value and ends the
  response.\<close>

definition res_json :: "json \<Rightarrow> response \<Rightarrow> exn + response" where
  "res_json v r =
     (if headersSent r then Inl ERR_HTTP_HEADERS_SENT
      else Inr (r\<lparr>headers :=
                    (case map_of (headers r) ''Content-Type'' of
                       None \<Rightarrow> AList.update ''Content-Type'' ''application/json; charset=utf-8'' (headers r)
                     | Some t \<Rightarrow> headers r),
                  headersSent := True,
                  sent := sent r @ [Json v]\<rparr>))"

text \<open>All the state a handler can touch: the request, the response and the console.\<close>

record ctx =
  req :: request
  res :: response
  proc :: process

definition log_out :: "log_arg list \<Rightarrow> ctx \<Rightarrow> ctx" where
  "log_out args c = c\<lparr>proc := console_log args (proc c)\<rparr>"

definition log_err :: "log_arg list \<Rightarrow> ctx \<Rightarrow> ctx" where
  "log_err args c = c\<lparr>proc := console_error args (proc c)\<rparr>"

text \<open>A handler returns without calling \<^verbatim>\<open>next()\<close> (\<open>Done\<close>: the exchange is left to
  what it wrote), calls \<^verbatim>\<open>next()\<close>, or throws.\<close>

datatype outcome = Next ctx | Done ctx | Threw exn ctx

type_synonym handler = "ctx \<Rightarrow> outcome"

section \<open>The clock: \<^verbatim>\<open>new Date().toISOString()\<close>\<close>

text \<open>
  A time value is the number of milliseconds since 1970-01-01T00:00:00Z, an integer of
  magnitude at most \<open>8.64e15\<close>. \<^verbatim>\<open>toISOString\<close> prints it in UTC as
  \<^verbatim>\<open>YYYY-MM-DDTHH:mm:ss.sssZ\<close>, the year with a sign and six digits when it is outside
  0 to 9999 (ECMA-262, Date.prototype.toISOString). \<open>YearAndDay\<close> gives ECMA-262's
  \<^verbatim>\<open>YearFromTime\<close> and \<^verbatim>\<open>DayWithinYear\<close> by walking from 1970 one year at a time,
  \<open>MonthAndDate\<close> its \<^verbatim>\<open>MonthFromTime\<close> (counted from 1) and \<^verbatim>\<open>DateFromTime\<close> by walking
  through the months of that year.
\<close>

definition msPerDay :: int where
  "msPerDay = 86400000"


definition DaysInYear :: "int \<Rightarrow> int" where
  "DaysInYear y =
     (if y mod 4 \<noteq> 0 then 365
      else if y mod 100 \<noteq> 0 then 366
      else if y mod 400 \<noteq> 0 then 365
      else 366)"

function YearAndDay :: "int \<Rightarrow> int \<Rightarrow> int \<times> int" where
  "YearAndDay y d =
     (if d < 0 then YearAndDay (y - 1) (d + DaysInYear (y - 1))
      else if DaysInYear y \<le> d then YearAndDay (y + 1) (d - DaysInYear y)
      else (y, d))"
  by pat_completeness auto
termination
  by (relation "measure (\<lambda>(y, d). if d < 0 then nat (- d) + 366 else nat d)")
     (auto simp: DaysInYear_def)

definition monthLengths :: "int \<Rightarrow> int list" where
  "monthLengths y =
     [31, if DaysInYear y = 366 then 29 else 28, 31, 30, 31, 30, 31, 31, 30, 31, 30, 31]"

fun MonthAndDate :: "int list \<Rightarrow> int \<Rightarrow> int \<Rightarrow> int \<times> int" where
  "MonthAndDate [] m d = (m, d + 1)"
| "MonthAndDate (l # ls) m d =
     (if d < l then (m, d + 1) else MonthAndDate ls (m + 1) (d - l))"

definition digit :: "nat \<Rightarrow> char" where
  "digit n = ''0123456789'' ! (n mod 10)"

fun decimal :: "nat \<Rightarrow> string" where
  "decimal n = (if n < 10 then [digit n] else decimal (n div 10) @ [digit (n mod 10)])"

definition padStart :: "nat \<Rightarrow> string \<Rightarrow> string" where
  "padStart w s = replicate (w - length s) (CHR ''0'') @ s"

definition pad :: "nat \<Rightarrow> int \<Rightarrow> string" where
  "pad w n = padStart w (decimal (nat n))"

definition yearString :: "int \<Rightarrow> string" where
  "yearString y =
     (if 0 \<le> y \<and> y \<le> 9999 then pad 4 y
      else if y < 0 then ''-'' @ pad 6 (- y)
      else ''+'' @ pad 6 y)"

definition toISOString :: "int \<Rightarrow> string" where
  "toISOString t =
     (let day = t div msPerDay;
          ms = t mod msPerDay;
          (y, dayInYear) = YearAndDay 1970 day;
          (m, d) = MonthAndDate (monthLengths y) 1 dayInYear
      in yearString y @ ''-'' @ pad 2 m @ ''-'' @ pad 2 d @ ''T''
         @ pad 2 (ms div 3600000) @ '':'' @ pad 2 (ms div 60000 mod 60) @ '':''
         @ pad 2 (ms div 1000 mod 60) @ ''.'' @ pad 3 (ms mod 1000) @ ''Z'')"






section \<open>The NWS helper\<close>

text \<open>
  \<^verbatim>\<open>fetch\<close> is the platform's: it rejects (\<open>Inl\<close>) or resolves to a response with its
  \<^verbatim>\<open>ok\<close> flag, its status and what \<^verbatim>\<open>response.json()\<close> gives, a parsed body or a
  rejection.
\<close>

record fetch_response =
  ok :: bool
  status :: nat
  json_result :: "exn + json"

type_synonym fetch = "string \<Rightarrow> (string \<times> string) list \<Rightarrow> exn + fetch_response"

definition NWS_API_BASE :: string where
  "NWS_API_BASE = ''https://api.weather.gov''"

definition USER_AGENT :: string where
  "USER_AGENT = ''weather-app/1.0''"

text \<open>The \<^verbatim>\<open>try\<close> block of \<^verbatim>\<open>makeNWSRequest\<close>: \<open>Inl\<close> is what it throws.\<close>

definition makeNWSRequest_try :: "fetch \<Rightarrow> string \<Rightarrow> exn + json" where
  "makeNWSRequest_try fetch url =
     (case fetch url [(''User-Agent'', USER_AGENT), (''Accept'', ''application/geo+json'')] of
        Inl e \<Rightarrow> Inl e
      | Inr response \<Rightarrow>
          if \<not> ok response then Inl (HttpStatusError (status response))
          else json_result response)"

text \<open>The whole function, with its \<^verbatim>\<open>catch\<close>: \<open>Inl\<close> would be an exception that
  leaves it.\<close>

definition makeNWSRequest :: "fetch \<Rightarrow> string \<Rightarrow> process \<Rightarrow> (exn + json) \<times> process" where
  "makeNWSRequest fetch url p =
     (case makeNWSRequest_try fetch url of
        Inr v \<Rightarrow> (Inr v, p)
      | Inl error \<Rightarrow> (Inr JNull, console_error [Str ''Error making NWS request:'', Err error] p))"

section \<open>The route handlers of index.ts\<close>

definition health :: "int \<Rightarrow> handler" where
  "health now c =
     (case res_json (JObj [(''status'', JStr ''ok''), (''timestamp'', JStr (toISOString now))]) (res c) of
        Inl e \<Rightarrow> Threw e c
      | Inr r \<Rightarrow> Done (c\<lparr>res := r\<rparr>))"

definition oauth_metadata_debug :: handler where
  "oauth_metadata_debug c =
     (let c1 = log_out [Str ''OAuth metadata requested''] c in
      case res_setHeader ''Access-Control-Allow-Origin'' ''*'' (res c1) of
        Inl e \<Rightarrow> Threw e c1
      | Inr r1 \<Rightarrow>
     (case res_setHeader ''Access-Control-Allow-Methods'' ''GET, OPTIONS'' r1 of
        Inl e \<Rightarrow> Threw e (c1\<lparr>res := r1\<rparr>)
      | Inr r2 \<Rightarrow>
     (case res_setHeader ''Access-Control-Allow-Headers'' ''Content-Type, Authorization'' r2 of
        Inl e \<Rightarrow> Threw e (c1\<lparr>res := r2\<rparr>)
      | Inr r3 \<Rightarrow> Next (c1\<lparr>res := r3\<rparr>))))"

text \<open>The body of \<^verbatim>\<open>GET /\<close>. \<^verbatim>\<open>JSON.stringify\<close> leaves out a property whose value is
  \<^verbatim>\<open>undefined\<close>, as \<^verbatim>\<open>serverUrl\<close> is when \<^verbatim>\<open>SERVER_URL\<close> is not set.\<close>

definition root_body :: "env \<Rightarrow> json" where
  "root_body e =
     JObj [(''message'', JStr ''Weather MCP Server is running''),
           (''endpoints'', JObj [(''mcp'', JStr ''/mcp''),
                                 (''health'', JStr ''/health''),
                                 (''oauth_metadata'', JStr ''/.well-known/oauth-authorization-server'')]),
           (''environment'',
              JObj ([(''hasDescopeProjectId'', JBool (truthy (env_val e ''DESCOPE_PROJECT_ID''))),
                     (''hasDescopeManagementKey'', JBool (truthy (env_val e ''DESCOPE_MANAGEMENT_KEY'')))]
                    @ (case env_val e ''SERVER_URL'' of
                         None \<Rightarrow> []
                       | Some u \<Rightarrow> [(''serverUrl'', u)])))]"

definition root :: "env \<Rightarrow> handler" where
  "root e c =
     (case res_json (root_body e) (res c) of
        Inl ex \<Rightarrow> Threw ex c
      | Inr r \<Rightarrow> Done (c\<lparr>res := r\<rparr>))"

text \<open>The envelope of the \<^verbatim>\<open>catch\<close> block of \<^verbatim>\<open>POST /mcp\<close>, for the request body \<open>b\<close>:
  \<^verbatim>\<open>id: req.body?.id || null\<close>.\<close>

definition error_envelope :: "jsval \<Rightarrow> json" where
  "error_envelope b =
     JObj [(''jsonrpc'', JStr ''2.0''),
           (''error'', JObj [(''code'', JNum (- 32603)),
                             (''message'', JStr ''Internal server error'')]),
           (''id'', js_or (opt_prop b ''id'') JNull)]"

text \<open>
  \<^verbatim>\<open>POST /mcp\<close>. \<open>handleRequest\<close> is \<^verbatim>\<open>transport.handleRequest(req, res, req.body)\<close> of
  the MCP SDK: it may write to the response and the console, and returns or throws.
\<close>

definition post_mcp_enter :: "ctx \<Rightarrow> ctx" where
  "post_mcp_enter c =
     log_out [Str ''Request headers:'', Hdrs (reqHeaders (req c))]
       (log_out [Str ''Received MCP request:'', Val (body (req c))] c)"

definition post_mcp :: "(ctx \<Rightarrow> (exn + unit) \<times> ctx) \<Rightarrow> handler" where
  "post_mcp handleRequest c =
     (case handleRequest (post_mcp_enter c) of
        (Inr u, c1) \<Rightarrow> Done c1
      | (Inl error, c1) \<Rightarrow>
          let c2 = log_err [Str ''Error handling MCP request:'', Err error] c1 in
          if \<not> headersSent (res c2) then
            (case res_json (error_envelope (body (req c2))) (res_status 500 (res c2)) of
               Inl e \<Rightarrow> Threw e c2
             | Inr r \<Rightarrow> Done (c2\<lparr>res := r\<rparr>))
          else Done c2)"

definition get_mcp :: handler where
  "get_mcp c =
     (let c1 = log_out [Str ''Received GET request to /mcp''] c in
      case res_json (JObj [(''message'', JStr ''MCP endpoint is available. Use POST with JSON-RPC 2.0 format.''),
                           (''server'', JStr ''weather-mcp-server''),
                           (''version'', JStr ''1.0.1'')]) (res c1) of
        Inl e \<Rightarrow> Threw e c1
      | Inr r \<Rightarrow> Done (c1\<lparr>res := r\<rparr>))"

section \<open>The middleware stack\<close>

text \<open>
  Express keeps the layers in the order of the \<^verbatim>\<open>app.use\<close>, \<^verbatim>\<open>app.get\<close> and
  \<^verbatim>\<open>app.post\<close> calls and offers a request to each layer in turn: \<^verbatim>\<open>app.use(fn)\<close>
  takes every request, \<^verbatim>\<open>app.use(paths, fn)\<close> every request whose path starts with
  one of the paths, a route one method at one path (a \<^verbatim>\<open>get\<close> route also takes
  \<^verbatim>\<open>HEAD\<close>), and \<^verbatim>\<open>app.options("*", fn)\<close> every \<^verbatim>\<open>OPTIONS\<close> request. Path segments are
  compared as they are; Express ignores letter case in every layer alike.
\<close>

datatype layer_id =
    ExpressJson | ExpressStatic | Cors | OptionsCors | AuthRouter | BearerAuth
  | Health | OAuthMetadataDebug | Root | PostMcp | GetMcp

datatype matcher =
    UseAll
  | UsePaths "string list list"
  | RouteAt http_method "string list"
  | RouteAny http_method

definition method_handled :: "http_method \<Rightarrow> http_method \<Rightarrow> bool" where
  "method_handled routeMethod m = (m = routeMethod \<or> (routeMethod = GET \<and> m = HEAD))"

definition path_under :: "string list \<Rightarrow> string list \<Rightarrow> bool" where
  "path_under mount p = (take (length mount) p = mount)"

fun matches :: "matcher \<Rightarrow> request \<Rightarrow> bool" where
  "matches UseAll r = True"
| "matches (UsePaths mounts) r = list_ex (\<lambda>mount. path_under mount (reqPath r)) mounts"
| "matches (RouteAt m p) r = (method_handled m (reqMethod r) \<and> reqPath r = p)"
| "matches (RouteAny m) r = method_handled m (reqMethod r)"

record layer =
  lid :: layer_id
  matcher :: matcher
  handle :: handler

text \<open>
  When no layer ends the response Express answers 404; when a handler throws and no
  error middleware is registered (index.ts registers none) it answers 500. Neither can
  write once the headers are out: the connection is dropped instead.
\<close>

definition csp_default_src_none :: string where
  "csp_default_src_none = ''default-src '' @ [CHR 0x27] @ ''none'' @ [CHR 0x27]"

definition finalhandler :: "ctx \<Rightarrow> ctx" where
  "finalhandler c =
     (if headersSent (res c) then c
      else c\<lparr>res := (res c)\<lparr>statusCode := 404,
                           headers := AList.update ''Content-Type'' ''text/html; charset=utf-8''
                             (AList.update ''X-Content-Type-Options'' ''nosniff''
                               (AList.update ''Content-Security-Policy'' csp_default_src_none (headers (res c)))),
                           headersSent := True,
                           sent := sent (res c) @ [NotFoundPage]\<rparr>\<rparr>)"

definition finalhandler_error :: "exn \<Rightarrow> ctx \<Rightarrow> ctx" where
  "finalhandler_error e c =
     (if headersSent (res c) then c
      else c\<lparr>res := (res c)\<lparr>statusCode := 500,
                           headers := AList.update ''Content-Type'' ''text/html; charset=utf-8''
                             (AList.update ''X-Content-Type-Options'' ''nosniff''
                               (AList.update ''Content-Security-Policy'' csp_default_src_none (headers (res c)))),
                           headersSent := True,
                           sent := sent (res c) @ [ErrorPage e]\<rparr>\<rparr>)"

text \<open>Running a request through the layers; the first component of the result lists the
  layers whose handler ran, in order.\<close>

fun dispatch :: "layer list \<Rightarrow> ctx \<Rightarrow> layer_id list \<times> ctx" where
  "dispatch [] c = ([], finalhandler c)"
| "dispatch (l # ls) c =
     (if matches (matcher l) (req c) then
        (case handle l c of
           Done c' \<Rightarrow> ([lid l], c')
         | Threw e c' \<Rightarrow> ([lid l], finalhandler_error e c')
         | Next c' \<Rightarrow> (case dispatch ls c' of (ids, c'') \<Rightarrow> (lid l # ids, c'')))
      else dispatch ls c)"

text \<open>
  The middleware that index.ts takes from packages: \<^verbatim>\<open>express.json()\<close>,
  \<^verbatim>\<open>express.static(...)\<close>, the two \<^verbatim>\<open>cors(...)\<close> instances, \<^verbatim>\<open>descopeMcpAuthRouter()\<close>,
  \<^verbatim>\<open>descopeMcpBearerAuth()\<close> and the transport's \<^verbatim>\<open>handleRequest\<close>. Their code is not part
  of the sources, so the application is a function of them.
\<close>

record externals =
  express_json :: handler
  express_static :: handler
  cors_configured :: handler
  cors_default :: handler
  authRouter :: handler
  bearerAuth :: handler
  handleRequest :: "ctx \<Rightarrow> (exn + unit) \<times> ctx"

text \<open>The stack of index.ts in source order: the middleware of lines 245 to 263, then the
  routes of lines 266 to 327.\<close>

definition route_stack :: "externals \<Rightarrow> env \<Rightarrow> int \<Rightarrow> layer list" where
  "route_stack ext e now =
     [\<lparr>lid = Health, matcher = RouteAt GET [''health''], handle = health now\<rparr>,
      \<lparr>lid = OAuthMetadataDebug,
        matcher = RouteAt GET [''.well-known'', ''oauth-authorization-server''],
        handle = oauth_metadata_debug\<rparr>,
      \<lparr>lid = Root, matcher = RouteAt GET [], handle = root e\<rparr>,
      \<lparr>lid = PostMcp, matcher = RouteAt POST [''mcp''], handle = post_mcp (handleRequest ext)\<rparr>,
      \<lparr>lid = GetMcp, matcher = RouteAt GET [''mcp''], handle = get_mcp\<rparr>]"

definition app_stack :: "externals \<Rightarrow> env \<Rightarrow> int \<Rightarrow> layer list" where
  "app_stack ext e now =
     [\<lparr>lid = ExpressJson, matcher = UseAll, handle = express_json ext\<rparr>,
      \<lparr>lid = ExpressStatic, matcher = UseAll, handle = express_static ext\<rparr>,
      \<lparr>lid = Cors, matcher = UseAll, handle = cors_configured ext\<rparr>,
      \<lparr>lid = OptionsCors, matcher = RouteAny OPTIONS, handle = cors_default ext\<rparr>,
      \<lparr>lid = AuthRouter, matcher = UseAll, handle = authRouter ext\<rparr>,
      \<lparr>lid = BearerAuth, matcher = UsePaths [[''mcp'']], handle = bearerAuth ext\<rparr>]
     @ route_stack ext e now"

definition app :: "externals \<Rightarrow> env \<Rightarrow> int \<Rightarrow> ctx \<Rightarrow> layer_id list \<times> ctx" where
  "app ext e now c = dispatch (app_stack ext e now) c"

section \<open>The bearer-token validator\<close>

text \<open>
  \<^verbatim>\<open>descopeMcpBearerAuth\<close> is exported by the package \<^verbatim>\<open>@descope/mcp-express\<close>, whose
  code is not among the sources; index.ts only mounts it. The definitions of this
  section follow section 4.3 of the specification instead. The verdict on a token comes
  from the identity provider and is a parameter.
\<close>

datatype verdict = Valid principal | InvalidToken | InsufficientScope

text \<open>Modelled from the spec: the token extracted from the
  \<^verbatim>\<open>Authorization: Bearer <token>\<close> header, absent when there is no such header or it
  carries no bearer token.\<close>

definition bearer_token :: "request \<Rightarrow> string option" where
  "bearer_token r =
     (case map_of (reqHeaders r) ''authorization'' of
        None \<Rightarrow> None
      | Some h \<Rightarrow> if take 7 h = ''Bearer '' then Some (drop 7 h) else None)"

text \<open>Modelled from the spec: a rejection is a response with an OAuth-shaped error body,
  and with the \<^verbatim>\<open>WWW-Authenticate: Bearer\<close> challenge when the status is 401.\<close>

definition oauth_error :: "nat \<Rightarrow> string \<Rightarrow> bool \<Rightarrow> ctx \<Rightarrow> outcome" where
  "oauth_error code err challenge c =
     Done (c\<lparr>res := (res c)\<lparr>statusCode := code,
                                 headers := (if challenge
                                             then AList.update ''WWW-Authenticate'' ''Bearer'' (headers (res c))
                                             else headers (res c)),
                                 headersSent := True,
                                 sent := sent (res c) @ [Json (JObj [(''error'', JStr err)])]\<rparr>\<rparr>)"

text \<open>
  Modelled from the spec: the validator \<^verbatim>\<open>descopeMcpBearerAuth\<close> of the package
  \<^verbatim>\<open>@descope/mcp-express\<close>. If the token is absent, the response is 401 with
  \<^verbatim>\<open>WWW-Authenticate: Bearer\<close> and the error \<^verbatim>\<open>invalid_request\<close>; an expired or invalid
  token gives 401 \<^verbatim>\<open>invalid_token\<close>, a valid token without a required scope 403
  \<^verbatim>\<open>insufficient_scope\<close>; on success the principal is attached to the request and the
  next stage runs.
\<close>

definition descopeMcpBearerAuth :: "(string \<Rightarrow> verdict) \<Rightarrow> handler" where
  "descopeMcpBearerAuth verify c =
     (case bearer_token (req c) of
        None \<Rightarrow> oauth_error 401 ''invalid_request'' True c
      | Some token \<Rightarrow>
          (case verify token of
             Valid p \<Rightarrow> Next (c\<lparr>req := (req c)\<lparr>auth := Some p\<rparr>\<rparr>)
           | InvalidToken \<Rightarrow> oauth_error 401 ''invalid_token'' True c
           | InsufficientScope \<Rightarrow> oauth_error 403 ''insufficient_scope'' False c))"

section \<open>The transport's session\<close>

text \<open>The options index.ts constructs the transport with (lines 255 to 257):
  \<^verbatim>\<open>sessionIdGenerator: undefined\<close>. A generator makes an identifier from the number of
  identifiers made so far.\<close>

record transport_options =
  sessionIdGenerator :: "(nat \<Rightarrow> string) option"

definition transport_options_of_index :: transport_options where
  "transport_options_of_index = \<lparr>sessionIdGenerator = None\<rparr>"

text \<open>
  \<^verbatim>\<open>StreamableHTTPServerTransport\<close> is a class of the package
  \<^verbatim>\<open>@modelcontextprotocol/sdk\<close>, whose code is not among the sources. What it keeps about
  sessions follows section 3 of the specification (TransportSession) instead: its
  options, the session identifier once one exists, and how many were generated.
\<close>

record transport =
  options :: transport_options
  sessionId :: "string option"
  generated :: nat

text \<open>Modelled from the spec: the constructor of \<^verbatim>\<open>StreamableHTTPServerTransport\<close>; a new
  transport has no session.\<close>

definition new_transport :: "transport_options \<Rightarrow> transport" where
  "new_transport opts = \<lparr>options = opts, sessionId = None, generated = 0\<rparr>"

text \<open>
  Modelled from the spec: the session handling of one request by
  \<^verbatim>\<open>StreamableHTTPServerTransport\<close>. With a session-id generator the transport generates
  an identifier, keeps it and announces it to the client; in the stateless
  configuration no session identifier is generated or persisted. The second component
  is the session identifier that the response announces.
\<close>

definition transport_step :: "transport \<Rightarrow> request \<Rightarrow> transport \<times> string option" where
  "transport_step t r =
     (case sessionIdGenerator (options t) of
        None \<Rightarrow> (t, None)
      | Some gen \<Rightarrow>
          (case sessionId t of
             Some sid \<Rightarrow> (t, Some sid)
           | None \<Rightarrow>
               (t\<lparr>sessionId := Some (gen (generated t)), generated := Suc (generated t)\<rparr>,
                Some (gen (generated t)))))"

text \<open>A sequence of requests through one transport, as index.ts shares its transport
  among all requests.\<close>

fun transport_run :: "transport \<Rightarrow> request list \<Rightarrow> transport \<times> string option list" where
  "transport_run t [] = (t, [])"
| "transport_run t (r # rs) =
     (case transport_step t r of
        (t', announced) \<Rightarrow>
          (case transport_run t' rs of (t'', rest) \<Rightarrow> (t'', announced # rest)))"

section \<open>Vocabulary of the properties\<close>





section \<open>Sample inputs\<close>


definition env_all_set :: env where
  "env_all_set =
     [''DESCOPE_PROJECT_ID'' \<mapsto> ''P123'', ''DESCOPE_MANAGEMENT_KEY'' \<mapsto> ''key'',
      ''SERVER_URL'' \<mapsto> ''https://example.com'']"

text \<open>A second environment with other credentials and the same server URL.\<close>

definition env_other_credentials :: env where
  "env_other_credentials =
     [''DESCOPE_PROJECT_ID'' \<mapsto> ''P999'', ''DESCOPE_MANAGEMENT_KEY'' \<mapsto> ''another key'',
      ''SERVER_URL'' \<mapsto> ''https://example.com'']"

text \<open>An upstream that answers with an empty feature collection, and one that answers
  503.\<close>

definition fetch_ok :: fetch where
  "fetch_ok url hs = Inr \<lparr>ok = True, status = 200, json_result = Inr (JObj [(''features'', JArr [])])\<rparr>"

definition fetch_503 :: fetch where
  "fetch_503 url hs = Inr \<lparr>ok = False, status = 503, json_result = Inr JNull\<rparr>"

text \<open>A transport that throws before writing anything, and one that throws after it has
  started to stream a response.\<close>

definition failing_transport :: "ctx \<Rightarrow> (exn + unit) \<times> ctx" where
  "failing_transport c = (Inl (Failure ''transport failure''), c)"

definition failing_after_write :: "ctx \<Rightarrow> (exn + unit) \<times> ctx" where
  "failing_after_write c =
     (Inl (Failure ''stream closed''),
      c\<lparr>res := (res c)\<lparr>headersSent := True, sent := sent (res c) @ [Raw ''event: message'']\<rparr>\<rparr>)"

text \<open>Middleware that does nothing but call \<^verbatim>\<open>next()\<close>, and a set of package middleware
  made of it around a given validator and transport.\<close>

definition pass :: handler where
  "pass c = Next c"

definition passing_externals :: "handler \<Rightarrow> (ctx \<Rightarrow> (exn + unit) \<times> ctx) \<Rightarrow> externals" where
  "passing_externals validator t =
     \<lparr>express_json = pass, express_static = pass, cors_configured = pass, cors_default = pass,
      authRouter = pass, bearerAuth = validator, handleRequest = t\<rparr>"

text \<open>A JSON-RPC request with the correlation id 0, and a fresh \<^verbatim>\<open>POST /mcp\<close> exchange
  with a given body.\<close>

definition body_id_zero :: json where
  "body_id_zero = JObj [(''jsonrpc'', JStr ''2.0''), (''method'', JStr ''tools/list''), (''id'', JNum 0)]"

definition ctx_post_mcp :: "jsval \<Rightarrow> ctx" where
  "ctx_post_mcp b =
     \<lparr>req = \<lparr>reqMethod = POST, reqPath = [''mcp''],
              reqHeaders = [(''content-type'', ''application/json'')], body = b, auth = None\<rparr>,
      res = response0, proc = process0\<rparr>"

text \<open>A verdict function that accepts one token, package middleware that passes
  everything on to that validator and a failing transport, and exchanges to try it on:
  a \<^verbatim>\<open>GET\<close> without headers and a \<^verbatim>\<open>POST /mcp\<close> with the accepted token.\<close>

definition sample_verify :: "string \<Rightarrow> verdict" where
  "sample_verify token =
     (if token = ''good-token''
      then Valid \<lparr>subject = ''user-1'', scopes = [''read''], expiry = 1893456000\<rparr>
      else InvalidToken)"

definition sample_externals :: externals where
  "sample_externals = passing_externals (descopeMcpBearerAuth sample_verify) failing_transport"

definition ctx_get :: "string list \<Rightarrow> ctx" where
  "ctx_get p =
     \<lparr>req = \<lparr>reqMethod = GET, reqPath = p, reqHeaders = [], body = None, auth = None\<rparr>,
      res = response0, proc = process0\<rparr>"


text \<open>A router that answers \<^verbatim>\<open>GET /.well-known/oauth-authorization-server\<close> with a
  document and passes every other request on, and the package middleware with it.\<close>

definition sample_metadata :: json where
  "sample_metadata =
     JObj [(''issuer'', JStr ''https://example.com''),
           (''registration_endpoint'', JStr ''https://example.com/register'')]"

definition metadata_router :: handler where
  "metadata_router c =
     (if reqMethod (req c) = GET \<and> reqPath (req c) = [''.well-known'', ''oauth-authorization-server'']
      then (case res_json sample_metadata (res c) of
              Inl e \<Rightarrow> Threw e c
            | Inr r \<Rightarrow> Done (c\<lparr>res := r\<rparr>))
      else Next c)"

definition externals_with_router :: externals where
  "externals_with_router = sample_externals\<lparr>authRouter := metadata_router\<rparr>"

text \<open>The state an outcome carries, and package middleware around the transport that
  throws after it has started to stream.\<close>

definition outcome_ctx :: "outcome \<Rightarrow> ctx" where
  "outcome_ctx out = (case out of Next c \<Rightarrow> c | Done c \<Rightarrow> c | Threw e c \<Rightarrow> c)"

definition externals_streaming :: externals where
  "externals_streaming = passing_externals (descopeMcpBearerAuth sample_verify) failing_after_write"

section \<open>Properties\<close>

subsection \<open>Startup\<close>







subsection \<open>The NWS helper\<close>

text \<open>
  C9. For every \<^verbatim>\<open>fetch\<close>, URL and console state, \<^verbatim>\<open>makeNWSRequest\<close> returns a value and
  throws nothing. When the fetch resolves with an ok status and the body parses, it
  returns the parsed body and prints nothing; when the fetch rejects, the status is not
  ok, or the body does not parse, it returns \<^verbatim>\<open>null\<close>.
\<close>

theorem makeNWSRequest_never_throws:
  "(\<exists>v p'. makeNWSRequest fetch url p = (Inr v, p'))
   \<and> (case fetch url [(''User-Agent'', USER_AGENT), (''Accept'', ''application/geo+json'')] of
        Inl e \<Rightarrow> fst (makeNWSRequest fetch url p) = Inr JNull
      | Inr response \<Rightarrow>
          if ok response then
            (case json_result response of
               Inr j \<Rightarrow> makeNWSRequest fetch url p = (Inr j, p)
             | Inl e \<Rightarrow> fst (makeNWSRequest fetch url p) = Inr JNull)
          else fst (makeNWSRequest fetch url p) = Inr JNull)"
  by (simp add: makeNWSRequest_def makeNWSRequest_try_def split: sum.splits)

theorem makeNWSRequest_never_throws_witness:
  "makeNWSRequest fetch_ok (NWS_API_BASE @ ''/alerts?area=CA'') process0
     = (Inr (JObj [(''features'', JArr [])]), process0)
   \<and> fst (makeNWSRequest fetch_503 (NWS_API_BASE @ ''/alerts?area=CA'') process0) = Inr JNull"
  using makeNWSRequest_never_throws [of fetch_ok "NWS_API_BASE @ ''/alerts?area=CA''" process0]
    makeNWSRequest_never_throws [of fetch_503 "NWS_API_BASE @ ''/alerts?area=CA''" process0]
  by (simp add: fetch_ok_def fetch_503_def)

subsection \<open>The root endpoint\<close>

text \<open>
  C10. Two environments in which both credentials are set (non-empty) and
  \<^verbatim>\<open>SERVER_URL\<close> is the same give the same body of \<^verbatim>\<open>GET /\<close> and the same outcome of the
  handler on every exchange, whatever the values of the credentials.
\<close>

theorem root_hides_credentials:
  assumes "truthy (env_val e1 ''DESCOPE_PROJECT_ID'')"
    and "truthy (env_val e2 ''DESCOPE_PROJECT_ID'')"
    and "truthy (env_val e1 ''DESCOPE_MANAGEMENT_KEY'')"
    and "truthy (env_val e2 ''DESCOPE_MANAGEMENT_KEY'')"
    and "e1 ''SERVER_URL'' = e2 ''SERVER_URL''"
  shows "root_body e1 = root_body e2 \<and> root e1 c = root e2 c"
  using assms by (simp add: root_body_def root_def env_val_def)

theorem root_hides_credentials_witness:
  "env_all_set ''DESCOPE_PROJECT_ID'' \<noteq> env_other_credentials ''DESCOPE_PROJECT_ID''
   \<and> env_all_set ''DESCOPE_MANAGEMENT_KEY'' \<noteq> env_other_credentials ''DESCOPE_MANAGEMENT_KEY''
   \<and> root_body env_all_set = root_body env_other_credentials"
  using root_hides_credentials [of env_all_set env_other_credentials]
  by (simp add: env_all_set_def env_other_credentials_def env_val_def)

subsection \<open>The MCP endpoint\<close>

lemma res_json_fresh:
  assumes "\<not> headersSent r"
  shows "\<exists>r'. res_json v r = Inr r' \<and> sent r' = sent r @ [Json v]
           \<and> statusCode r' = statusCode r \<and> headersSent r'"
  using assms by (simp add: res_json_def)

text \<open>
  C1. Let \<^verbatim>\<open>transport.handleRequest\<close> throw on a \<^verbatim>\<open>POST /mcp\<close> request, leaving a response
  on which it has made at most one terminal write, and none without sending the
  headers. Then the handler ends without throwing and the response has at most one
  terminal write: if the headers were sent the handler leaves the response as the
  transport left it, and if not, the response carries exactly one write, the error
  envelope, with status 500.
\<close>

theorem post_mcp_one_response:
  assumes T: "handleRequest ext (post_mcp_enter c) = (Inl e, c')"
    and ok: "sent (res c') \<noteq> [] \<longrightarrow> headersSent (res c')"
    and one: "length (sent (res c')) \<le> 1"
  shows "\<exists>c''. post_mcp (handleRequest ext) c = Done c''
          \<and> length (sent (res c'')) \<le> 1
          \<and> (headersSent (res c') \<longrightarrow> res c'' = res c')
          \<and> (\<not> headersSent (res c') \<longrightarrow>
                sent (res c'') = [Json (error_envelope (body (req c')))]
                \<and> statusCode (res c'') = 500 \<and> headersSent (res c''))"
proof (cases "headersSent (res c')")
  case True
  let ?c2 = "log_err [Str ''Error handling MCP request:'', Err e] c'"
  have run: "post_mcp (handleRequest ext) c = Done ?c2"
    using T True by (simp add: post_mcp_def log_err_def Let_def)
  have same: "res ?c2 = res c'"
    by (simp add: log_err_def)
  show ?thesis
    using run same True one by simp
next
  case False
  let ?c2 = "log_err [Str ''Error handling MCP request:'', Err e] c'"
  have empty: "sent (res c') = []"
    using ok False by blast
  have fresh: "\<not> headersSent (res_status 500 (res ?c2))"
    using False by (simp add: log_err_def res_status_def)
  from res_json_fresh [OF fresh, of "error_envelope (body (req ?c2))"]
  obtain r where r: "res_json (error_envelope (body (req ?c2))) (res_status 500 (res ?c2)) = Inr r"
    and r_sent: "sent r = sent (res_status 500 (res ?c2)) @ [Json (error_envelope (body (req ?c2)))]"
    and r_code: "statusCode r = statusCode (res_status 500 (res ?c2))"
    and r_hs: "headersSent r"
    by blast
  have run: "post_mcp (handleRequest ext) c = Done (?c2\<lparr>res := r\<rparr>)"
    using T False r by (simp add: post_mcp_def Let_def log_err_def)
  have "sent r = [Json (error_envelope (body (req c')))]"
    using r_sent empty by (simp add: log_err_def res_status_def)
  moreover have "statusCode r = 500"
    using r_code by (simp add: res_status_def)
  ultimately show ?thesis
    using run False r_hs by simp
qed

theorem post_mcp_one_response_witness:
  "sent (res (outcome_ctx (post_mcp (handleRequest sample_externals) (ctx_post_mcp None))))
     = [Json (error_envelope None)]
   \<and> statusCode (res (outcome_ctx (post_mcp (handleRequest sample_externals) (ctx_post_mcp None)))) = 500
   \<and> sent (res (outcome_ctx (post_mcp (handleRequest externals_streaming) (ctx_post_mcp None))))
     = [Raw ''event: message'']"
proof -
  let ?c = "ctx_post_mcp None"
  have h1: "handleRequest sample_externals (post_mcp_enter ?c)
      = (Inl (Failure ''transport failure''), post_mcp_enter ?c)"
    by (simp add: sample_externals_def passing_externals_def failing_transport_def)
  have u1: "\<not> headersSent (res (post_mcp_enter ?c))" "sent (res (post_mcp_enter ?c)) = []"
    "body (req (post_mcp_enter ?c)) = None"
    by (simp_all add: post_mcp_enter_def log_out_def ctx_post_mcp_def response0_def)
  let ?c2 = "(post_mcp_enter ?c)\<lparr>res := (res (post_mcp_enter ?c))
      \<lparr>headersSent := True, sent := sent (res (post_mcp_enter ?c)) @ [Raw ''event: message'']\<rparr>\<rparr>"
  have h2: "handleRequest externals_streaming (post_mcp_enter ?c) = (Inl (Failure ''stream closed''), ?c2)"
    by (simp add: externals_streaming_def passing_externals_def failing_after_write_def)
  have u2: "headersSent (res ?c2)" "sent (res ?c2) = [Raw ''event: message'']"
    by (simp_all add: u1)
  from post_mcp_one_response [OF h1] u1
  obtain c1 where c1: "post_mcp (handleRequest sample_externals) ?c = Done c1"
    "sent (res c1) = [Json (error_envelope None)]" "statusCode (res c1) = 500"
    by auto
  from post_mcp_one_response [OF h2] u2
  obtain c3 where c3: "post_mcp (handleRequest externals_streaming) ?c = Done c3"
    "res c3 = res ?c2"
    by auto
  from c1 c3 u2 show ?thesis
    by (simp add: outcome_ctx_def)
qed

text \<open>
  C3 at a request whose correlation id is 0: the body has an \<^verbatim>\<open>id\<close> field, the transport
  throws before anything is sent, and the envelope that the handler writes has the id
  \<^verbatim>\<open>null\<close>, not 0.
\<close>

theorem error_envelope_falsy_id:
  "opt_prop (Some body_id_zero) ''id'' = Some (JNum 0)
   \<and> post_mcp failing_transport (ctx_post_mcp (Some body_id_zero)) =
       Done (log_err [Str ''Error handling MCP request:'', Err (Failure ''transport failure'')]
              (post_mcp_enter (ctx_post_mcp (Some body_id_zero)))
             \<lparr>res := \<lparr>statusCode = 500,
                       headers = [(''Content-Type'', ''application/json; charset=utf-8'')],
                       headersSent = True,
                       sent = [Json (JObj [(''jsonrpc'', JStr ''2.0''),
                            (''error'', JObj [(''code'', JNum (- 32603)),
                                              (''message'', JStr ''Internal server error'')]),
                            (''id'', JNull)])]\<rparr>\<rparr>)"
  by (simp add: body_id_zero_def post_mcp_def failing_transport_def ctx_post_mcp_def
        post_mcp_enter_def log_out_def log_err_def res_json_def res_status_def response0_def
        error_envelope_def js_or_def)

text \<open>What does hold of the envelope: an id that JavaScript counts as true is echoed.\<close>

lemma error_envelope_truthy_id:
  "truthy (opt_prop b ''id'') \<Longrightarrow> opt_prop (Some (error_envelope b)) ''id'' = opt_prop b ''id''"
  by (cases "opt_prop b ''id''") (simp_all add: error_envelope_def js_or_def)

subsection \<open>The transport's session\<close>

lemma transport_run_stateless:
  "sessionIdGenerator (options t) = None \<Longrightarrow> transport_run t rs = (t, replicate (length rs) None)"
  by (induction rs) (simp_all add: transport_step_def)

text \<open>
  C5. index.ts constructs the transport without a session-id generator, and for every
  sequence of requests the transport so constructed is afterwards as it was
  constructed, holds no session identifier and has announced none.
\<close>

theorem stateless_transport_no_session:
  "sessionIdGenerator transport_options_of_index = None
   \<and> transport_run (new_transport transport_options_of_index) rs
       = (new_transport transport_options_of_index, replicate (length rs) None)
   \<and> sessionId (fst (transport_run (new_transport transport_options_of_index) rs)) = None"
  by (simp add: transport_run_stateless new_transport_def transport_options_of_index_def)

subsection \<open>The order of the layers\<close>





















lemmas eval_app = app_def app_stack_def route_stack_def sample_externals_def passing_externals_def
  pass_def method_handled_def path_under_def








text \<open>
  When the auth router answers the discovery request itself, the exchange ends at the
  router and the response is the router's alone.
\<close>

lemma router_answer_without_debug_handler:
  "app externals_with_router env_all_set 0 (ctx_get [''.well-known'', ''oauth-authorization-server''])
     = ([ExpressJson, ExpressStatic, Cors, AuthRouter],
        (ctx_get [''.well-known'', ''oauth-authorization-server''])
          \<lparr>res := \<lparr>statusCode = 200,
                    headers = [(''Content-Type'', ''application/json; charset=utf-8'')],
                    headersSent = True,
                    sent = [Json sample_metadata]\<rparr>\<rparr>)"
  by (simp add: eval_app externals_with_router_def ctx_get_def metadata_router_def res_json_def
      response0_def)

subsection \<open>The health endpoint\<close>

declare YearAndDay.simps [simp del] decimal.simps [simp del]












lemma length_decimal: "1 \<le> length (decimal n)"
  by (subst decimal.simps) simp













end
